theory Spec2Isabelle
  imports Complex_Main "HOL-Library.Multiset" "HOL-Library.Option_ord" "HOL-Library.Log_Nat"
begin

section \<open>The recommendation service of \<^verbatim>\<open>backend/main.py\<close>\<close>

text \<open>
  The handler \<^verbatim>\<open>recommend_properties\<close> filters the process-wide property table by the
  user's preferences, scores the surviving rows with the loaded model bundle, sorts them
  by score and returns the first \<^verbatim>\<open>max_results\<close> of them.

  Conventions of the embedding:
  \<^item> a \<^verbatim>\<open>DataFrame\<close> is the list of its rows, in index order. The nine columns the
    handler names are typed fields of a row (the fixed schema of the property table);
    every other column of the CSV is an entry of \<open>col_extra\<close>; the column
    \<^verbatim>\<open>score\<close> is absent (\<open>None\<close>) until the handler assigns it;
  \<^item> Python integers are \<open>int\<close>; a float is an IEEE double, written as the rational
    number it denotes. The two float operations of the handler, the product with 100 and
    \<^verbatim>\<open>round\<close>, round their exact result to the nearest double as the machine does.
    NaN and the infinities are not values: the predictions are finite, and a result
    beyond the largest double is \<open>None\<close>;
  \<^item> data frames are objects: the state holds a heap of frames by address, the global
    \<^verbatim>\<open>property_data\<close> is an address, and every pandas operation that returns a new
    frame allocates one;
  \<^item> an exception is a value \<open>Inl e\<close> of the result;
  \<^item> the model, the scaler and pandas' \<^verbatim>\<open>sort_values\<close> are library code: the first
    two are functions stored in the bundle, the last is a parameter of the handler.
\<close>

subsection \<open>Errors\<close>

datatype error =
    HTTPException int string
  | KeyError string
  | IndexError
  | ValueError
  | LibraryError string

subsection \<open>Data model\<close>

datatype cell = Num rat | Str string | Bool bool

record row =
  col_property_id :: string
  col_address :: string
  col_price :: int
  col_bedrooms :: int
  col_commute_time_min :: int
  col_school_rating :: int
  col_has_pool :: bool
  col_garage_spaces :: int
  col_city :: string
  col_extra :: "(string \<times> cell) list"
  col_score :: "rat option"

type_synonym DataFrame = "row list"

record UserPreferences =
  budget_min :: int
  budget_max :: int
  city :: "string option"
  min_bedrooms :: int
  max_commute_time_minutes :: int
  min_school_rating :: int
  must_have_features :: "string list"
  lifestyle_preferences :: "string list"
  size_preference :: string
  min_garage_spaces :: int

record RecommendationRequest =
  user_preferences :: UserPreferences
  max_results :: int

record PropertyRecommendation =
  property_id :: string
  address :: string
  price :: int
  score :: rat
  reason :: string

record RecommendationResponse =
  recommendations :: "PropertyRecommendation list"

text \<open>
  The model bundle is a dictionary read at the keys \<^verbatim>\<open>model\<close>, \<^verbatim>\<open>scaler\<close> and
  \<^verbatim>\<open>features\<close>; a key that is not there is \<open>None\<close>. A model may or may not have the
  attribute \<^verbatim>\<open>predict_proba\<close>. Library calls can raise.
\<close>

record Model =
  predict_proba :: "(rat list list \<Rightarrow> error + rat list list) option"
  predict :: "rat list list \<Rightarrow> error + rat list"

record Scaler =
  transform :: "cell list list \<Rightarrow> error + rat list list"

record ModelBundle =
  model :: "Model option"
  scaler :: "Scaler option"
  features :: "string list option"

definition empty_bundle :: ModelBundle where
  "empty_bundle = \<lparr>model = None, scaler = None, features = None\<rparr>"

record state =
  heap :: "nat \<Rightarrow> DataFrame"
  next_addr :: nat
  property_data :: nat
  model_bundle :: ModelBundle

subsection \<open>The pandas operations the handler uses\<close>

definition df_empty :: "DataFrame \<Rightarrow> bool" where
  "df_empty df = (df = [])"

definition new_frame :: "DataFrame \<Rightarrow> state \<Rightarrow> nat \<times> state" where
  "new_frame df s =
     (next_addr s, s\<lparr>heap := (heap s)(next_addr s := df), next_addr := Suc (next_addr s)\<rparr>)"

definition df_copy :: "nat \<Rightarrow> state \<Rightarrow> nat \<times> state" where
  "df_copy a s = new_frame (heap s a) s"

text \<open>\<^verbatim>\<open>df[mask]\<close>: a new frame with the rows where the mask holds, in order.\<close>

definition df_getitem_mask :: "(row \<Rightarrow> bool) \<Rightarrow> nat \<Rightarrow> state \<Rightarrow> nat \<times> state" where
  "df_getitem_mask P a s = new_frame (filter P (heap s a)) s"

text \<open>Reading a column by name.\<close>

definition column :: "string \<Rightarrow> row \<Rightarrow> cell option" where
  "column c r =
     (if c = ''property_id'' then Some (Str (col_property_id r))
      else if c = ''address'' then Some (Str (col_address r))
      else if c = ''price'' then Some (Num (of_int (col_price r)))
      else if c = ''bedrooms'' then Some (Num (of_int (col_bedrooms r)))
      else if c = ''commute_time_min'' then Some (Num (of_int (col_commute_time_min r)))
      else if c = ''school_rating'' then Some (Num (of_int (col_school_rating r)))
      else if c = ''has_pool'' then Some (Bool (col_has_pool r))
      else if c = ''garage_spaces'' then Some (Num (of_int (col_garage_spaces r)))
      else if c = ''city'' then Some (Str (col_city r))
      else if c = ''score'' then map_option Num (col_score r)
      else map_of (col_extra r) c)"

text \<open>\<^verbatim>\<open>df[features]\<close>: the named columns in the order of the list; a name that is not a
  column raises \<^verbatim>\<open>KeyError\<close>.\<close>

definition df_getitem_columns :: "string list \<Rightarrow> DataFrame \<Rightarrow> error + cell list list" where
  "df_getitem_columns fs df =
     (if \<forall>r \<in> set df. \<forall>f \<in> set fs. column f r \<noteq> None
      then Inr (map (\<lambda>r. map (\<lambda>f. the (column f r)) fs) df)
      else Inl (KeyError ''not in index''))"

text \<open>\<^verbatim>\<open>P[:, 1]\<close> on a two-dimensional array.\<close>

definition column_1 :: "rat list list \<Rightarrow> error + rat list" where
  "column_1 P =
     (if \<forall>p \<in> set P. 1 < length p then Inr (map (\<lambda>p. p ! 1) P) else Inl IndexError)"

text \<open>\<^verbatim>\<open>df['score'] = preds\<close>: the frame at the address is changed in place.\<close>

definition assign_score :: "DataFrame \<Rightarrow> rat list \<Rightarrow> DataFrame" where
  "assign_score df preds = map2 (\<lambda>r p. r\<lparr>col_score := Some p\<rparr>) df preds"

definition df_setitem_score :: "nat \<Rightarrow> rat list \<Rightarrow> state \<Rightarrow> error + state" where
  "df_setitem_score a preds s =
     (if length preds \<noteq> length (heap s a) then Inl ValueError
      else Inr (s\<lparr>heap := (heap s)(a := assign_score (heap s a) preds)\<rparr>))"

definition df_sort_values :: "(DataFrame \<Rightarrow> DataFrame) \<Rightarrow> nat \<Rightarrow> state \<Rightarrow> nat \<times> state" where
  "df_sort_values sort_values a s = new_frame (sort_values (heap s a)) s"

text \<open>\<^verbatim>\<open>head(n)\<close> is the slice \<^verbatim>\<open>[:n]\<close>: a negative \<open>n\<close> drops the last \<open>-n\<close> rows.\<close>

definition head :: "int \<Rightarrow> 'a list \<Rightarrow> 'a list" where
  "head n xs = (if 0 \<le> n then take (nat n) xs else take (length xs - nat (- n)) xs)"

definition df_head :: "int \<Rightarrow> nat \<Rightarrow> state \<Rightarrow> nat \<times> state" where
  "df_head n a s = new_frame (head n (heap s a)) s"

subsection \<open>Python's \<^verbatim>\<open>round\<close> and \<^verbatim>\<open>str\<close>\<close>

definition round_half_even :: "rat \<Rightarrow> int" where
  "round_half_even x =
     (let f = \<lfloor>x\<rfloor>; d = x - of_int f
      in if d < 1 / 2 then f else if 1 / 2 < d then f + 1 else if even f then f else f + 1)"

text \<open>
  \<open>floor_log2 x\<close>, for positive \<open>x\<close>, is the exponent \<open>m\<close> with
  \<open>2 powi m \<le> x < 2 powi (m + 1)\<close>. A double has 53 significant bits, so the doubles
  around \<open>x\<close> are the multiples of \<open>2 powi (m - 52)\<close>, and of \<open>2 powi (- 1074)\<close> in
  the subnormal range. \<open>to_double\<close> rounds to the nearest of them, a tie to the even
  one; from \<open>2 powi 1024\<close> on the result is infinite.
\<close>

definition floor_log2 :: "rat \<Rightarrow> int" where
  "floor_log2 x =
     (let (a, b) = quotient_of x; d = bitlen a - bitlen b
      in if 2 powi d \<le> x then d else d - 1)"

definition to_double :: "rat \<Rightarrow> rat option" where
  "to_double x =
     (if x = 0 then Some 0
      else let q = 2 powi (max (floor_log2 \<bar>x\<bar> - 52) (- 1074));
               y = of_int (round_half_even (x / q)) * q
           in if \<bar>y\<bar> < 2 powi 1024 then Some y else None)"

text \<open>The product of two floats.\<close>

definition float_mul :: "rat \<Rightarrow> rat \<Rightarrow> rat option" where
  "float_mul a b = to_double (a * b)"

text \<open>
  \<^verbatim>\<open>round(x, ndigits)\<close> on a float: the exact value of \<open>x\<close> is rounded to \<open>ndigits\<close>
  decimal places, a tie to the even digit, and the decimal number is converted back to
  the nearest double.
\<close>

definition py_round :: "rat \<Rightarrow> nat \<Rightarrow> rat option" where
  "py_round x ndigits = to_double (of_int (round_half_even (x * 10 ^ ndigits)) / 10 ^ ndigits)"

definition digit :: "nat \<Rightarrow> char" where
  "digit d = ''0123456789'' ! d"

fun str_nat :: "nat \<Rightarrow> string" where
  "str_nat n = (if n < 10 then [digit n] else str_nat (n div 10) @ [digit (n mod 10)])"

declare str_nat.simps [simp del]

definition str_int :: "int \<Rightarrow> string" where
  "str_int i = (if i < 0 then CHR ''-'' # str_nat (nat (- i)) else str_nat (nat i))"

subsection \<open>The handler\<close>

text \<open>The block \<^verbatim>\<open># Filter data\<close>: a copy of the table, then one mask after the other.\<close>

definition filter_data :: "UserPreferences \<Rightarrow> state \<Rightarrow> nat \<times> state" where
  "filter_data prefs s0 =
     (let (df, s) = df_copy (property_data s0) s0;
          (df, s) = df_getitem_mask
                      (\<lambda>r. budget_min prefs \<le> col_price r \<and> col_price r \<le> budget_max prefs) df s;
          (df, s) = df_getitem_mask (\<lambda>r. min_bedrooms prefs \<le> col_bedrooms r) df s;
          (df, s) = df_getitem_mask
                      (\<lambda>r. col_commute_time_min r \<le> max_commute_time_minutes prefs) df s;
          (df, s) = df_getitem_mask (\<lambda>r. min_school_rating prefs \<le> col_school_rating r) df s;
          (df, s) = (case city prefs of
                       None \<Rightarrow> (df, s)
                     | Some c \<Rightarrow> if c \<noteq> [] then df_getitem_mask (\<lambda>r. col_city r = c) df s
                                else (df, s));
          (df, s) = (if ''pool'' \<in> set (must_have_features prefs)
                     then df_getitem_mask (\<lambda>r. col_has_pool r = True) df s else (df, s))
      in df_getitem_mask (\<lambda>r. min_garage_spaces prefs \<le> col_garage_spaces r) df s)"

text \<open>The block \<^verbatim>\<open># Model Prediction\<close>, up to the array \<^verbatim>\<open>preds\<close>.\<close>

definition model_prediction :: "ModelBundle \<Rightarrow> DataFrame \<Rightarrow> error + rat list" where
  "model_prediction b df =
     (case model b of
        None \<Rightarrow> Inl (KeyError ''model'')
      | Some m \<Rightarrow>
     (case scaler b of
        None \<Rightarrow> Inl (KeyError ''scaler'')
      | Some sc \<Rightarrow>
     (case features b of
        None \<Rightarrow> Inl (KeyError ''features'')
      | Some fs \<Rightarrow>
     (case df_getitem_columns fs df of
        Inl e \<Rightarrow> Inl e
      | Inr raw \<Rightarrow>
     (case transform sc raw of
        Inl e \<Rightarrow> Inl e
      | Inr X \<Rightarrow>
     (case predict_proba m of
        Some pp \<Rightarrow> (case pp X of Inl e \<Rightarrow> Inl e | Inr P \<Rightarrow> column_1 P)
      | None \<Rightarrow> predict m X))))))"

text \<open>
  The body of the loop over \<^verbatim>\<open>df_sorted.iterrows()\<close>, and the loop. The score is
  \<^verbatim>\<open>round(row['score'] * 100, 2)\<close>: the float product first, then \<^verbatim>\<open>round\<close>. A
  product that overflows is infinite, and a response with an infinite score is not
  serialised: the request ends in a \<^verbatim>\<open>ValueError\<close>.
\<close>

definition row_recommendation :: "row \<Rightarrow> error + PropertyRecommendation" where
  "row_recommendation r =
     (let reason = ''Located in '' @ col_city r @ '', '' @ str_int (col_bedrooms r) @ '' BR, $''
                   @ str_int (col_price r) @ '' - School rating: ''
                   @ str_int (col_school_rating r)
      in case col_score r of
           None \<Rightarrow> Inl (KeyError ''score'')
         | Some sc \<Rightarrow>
             (case float_mul sc 100 of
                None \<Rightarrow> Inl ValueError
              | Some y \<Rightarrow>
                  (case py_round y 2 of
                     None \<Rightarrow> Inl ValueError
                   | Some z \<Rightarrow> Inr \<lparr>property_id = col_property_id r, address = col_address r,
                                     price = col_price r, score = z, reason = reason\<rparr>)))"

fun build_recommendations :: "row list \<Rightarrow> error + PropertyRecommendation list" where
  "build_recommendations [] = Inr []"
| "build_recommendations (r # rs) =
     (case row_recommendation r of
        Inl e \<Rightarrow> Inl e
      | Inr x \<Rightarrow> (case build_recommendations rs of Inl e \<Rightarrow> Inl e | Inr xs \<Rightarrow> Inr (x # xs)))"

definition recommend_properties ::
  "(DataFrame \<Rightarrow> DataFrame) \<Rightarrow> RecommendationRequest \<Rightarrow> state
     \<Rightarrow> (error + RecommendationResponse) \<times> state" where
  "recommend_properties sort_values req s0 =
     (let prefs = user_preferences req in
      if df_empty (heap s0 (property_data s0))
      then (Inl (HTTPException 500 ''No property data available''), s0)
      else
        let (df, s) = filter_data prefs s0 in
        if df_empty (heap s df) then (Inr \<lparr>recommendations = []\<rparr>, s)
        else
          case model_prediction (model_bundle s) (heap s df) of
            Inl e \<Rightarrow> (Inl e, s)
          | Inr preds \<Rightarrow>
              (case df_setitem_score df preds s of
                 Inl e \<Rightarrow> (Inl e, s)
               | Inr s \<Rightarrow>
                   let (df_sorted, s) = df_sort_values sort_values df s;
                       (df_sorted, s) = df_head (max_results req) df_sorted s
                   in (case build_recommendations (heap s df_sorted) of
                         Inl e \<Rightarrow> (Inl e, s)
                       | Inr recs \<Rightarrow> (Inr \<lparr>recommendations = recs\<rparr>, s))))"


subsection \<open>Specification-level predicates\<close>

text \<open>
  The seven predicates of the Preference Filter as the specification lists them, as one
  conjunction. A city is specified when the request carries a non-empty string (the
  handler tests \<^verbatim>\<open>if prefs.city\<close>).
\<close>

definition satisfies_preferences :: "UserPreferences \<Rightarrow> row \<Rightarrow> bool" where
  "satisfies_preferences prefs r \<longleftrightarrow>
     budget_min prefs \<le> col_price r \<and> col_price r \<le> budget_max prefs
     \<and> min_bedrooms prefs \<le> col_bedrooms r
     \<and> col_commute_time_min r \<le> max_commute_time_minutes prefs
     \<and> min_school_rating prefs \<le> col_school_rating r
     \<and> (case city prefs of None \<Rightarrow> True | Some c \<Rightarrow> c = [] \<or> col_city r = c)
     \<and> (''pool'' \<in> set (must_have_features prefs) \<longrightarrow> col_has_pool r)
     \<and> min_garage_spaces prefs \<le> col_garage_spaces r"

text \<open>
  What pandas documents for \<^verbatim>\<open>sort_values(by='score', ascending=False)\<close> with the
  default \<^verbatim>\<open>kind='quicksort'\<close>: the rows are rearranged so that the scores descend,
  missing scores last. The default kind is documented as not stable, so nothing is said
  about rows of equal score.
\<close>

definition sort_values_contract :: "(DataFrame \<Rightarrow> DataFrame) \<Rightarrow> bool" where
  "sort_values_contract sort_values \<longleftrightarrow>
     (\<forall>df. mset (sort_values df) = mset df
           \<and> sorted_wrt (\<lambda>a b. col_score b \<le> col_score a) (sort_values df))"

text \<open>
  An instance of the contract: the frame is reversed, sorted in ascending order by
  insertion and reversed again. It is applied to example frames whose scores are
  distinct, where every sort that meets the contract returns the same frame.
\<close>

definition sort_descending :: "DataFrame \<Rightarrow> DataFrame" where
  "sort_descending df = rev (sort_key col_score (rev df))"

text \<open>
  Of the exceptions, \<^verbatim>\<open>HTTPException\<close> is the one the handler raises itself, with a
  status and a detail message for the caller; any other exception leaves the handler
  unhandled.
\<close>

definition is_http_exception :: "error \<Rightarrow> bool" where
  "is_http_exception e = (case e of HTTPException _ _ \<Rightarrow> True | _ \<Rightarrow> False)"

text \<open>
  \<open>extends s s'\<close>: \<open>s'\<close> has the globals of \<open>s\<close> and every frame allocated in \<open>s\<close>
  is unchanged in \<open>s'\<close>. \<open>yields s0 F (a, s)\<close>: moreover \<open>a\<close> is a frame allocated
  after \<open>s0\<close>, with rows \<open>F\<close>.
\<close>

definition extends :: "state \<Rightarrow> state \<Rightarrow> bool" where
  "extends s s' \<longleftrightarrow>
     next_addr s \<le> next_addr s' \<and> property_data s' = property_data s
     \<and> model_bundle s' = model_bundle s \<and> (\<forall>a < next_addr s. heap s' a = heap s a)"

definition yields :: "state \<Rightarrow> DataFrame \<Rightarrow> nat \<times> state \<Rightarrow> bool" where
  "yields s0 F p \<longleftrightarrow>
     extends s0 (snd p) \<and> next_addr s0 \<le> fst p \<and> fst p < next_addr (snd p)
     \<and> heap (snd p) (fst p) = F"

subsection \<open>Example inputs\<close>

definition row_P1 :: row where
  "row_P1 = \<lparr>col_property_id = ''P1'', col_address = ''1 Elm St'', col_price = 400000,
     col_bedrooms = 3, col_commute_time_min = 30, col_school_rating = 8, col_has_pool = False,
     col_garage_spaces = 1, col_city = ''Denver'', col_extra = [(''sqft'', Num 1800)],
     col_score = None\<rparr>"

definition row_P2 :: row where
  "row_P2 = \<lparr>col_property_id = ''P2'', col_address = ''2 Oak Ave'', col_price = 500000,
     col_bedrooms = 4, col_commute_time_min = 20, col_school_rating = 9, col_has_pool = True,
     col_garage_spaces = 2, col_city = ''Denver'', col_extra = [(''sqft'', Num 2400)],
     col_score = None\<rparr>"

definition row_P3 :: row where
  "row_P3 = \<lparr>col_property_id = ''P3'', col_address = ''3 Pine Rd'', col_price = 250000,
     col_bedrooms = 2, col_commute_time_min = 50, col_school_rating = 5, col_has_pool = False,
     col_garage_spaces = 0, col_city = ''Boulder'', col_extra = [(''sqft'', Num 900)],
     col_score = None\<rparr>"

definition cell_value :: "cell \<Rightarrow> rat" where
  "cell_value c = (case c of Num x \<Rightarrow> x | Str _ \<Rightarrow> 0 | Bool b \<Rightarrow> (if b then 1 else 0))"

definition example_scaler :: Scaler where
  "example_scaler = \<lparr>transform = (\<lambda>raw. Inr (map (map cell_value) raw))\<rparr>"

text \<open>A classifier: the probability of the second class is the school rating over 16.\<close>

definition example_classifier :: Model where
  "example_classifier =
     \<lparr>predict_proba = Some (\<lambda>X. Inr (map (\<lambda>x. [1 - last x / 16, last x / 16]) X)),
      predict = (\<lambda>X. Inr (map (\<lambda>x. if 5 \<le> last x then 1 else 0) X))\<rparr>"

text \<open>A regressor (no \<^verbatim>\<open>predict_proba\<close>): the first feature divided by 600.\<close>

definition example_regressor :: Model where
  "example_regressor = \<lparr>predict_proba = None, predict = (\<lambda>X. Inr (map (\<lambda>x. hd x / 600) X))\<rparr>"

definition example_bundle :: "Model \<Rightarrow> ModelBundle" where
  "example_bundle m =
     \<lparr>model = Some m, scaler = Some example_scaler, features = Some [''sqft'', ''school_rating'']\<rparr>"

definition example_state :: "ModelBundle \<Rightarrow> state" where
  "example_state b =
     \<lparr>heap = (\<lambda>a. if a = 0 then [row_P1, row_P2, row_P3] else []), next_addr = 1,
      property_data = 0, model_bundle = b\<rparr>"

definition empty_state :: "ModelBundle \<Rightarrow> state" where
  "empty_state b = \<lparr>heap = (\<lambda>a. []), next_addr = 1, property_data = 0, model_bundle = b\<rparr>"

definition default_preferences :: UserPreferences where
  "default_preferences =
     \<lparr>budget_min = 200000, budget_max = 1000000, city = None, min_bedrooms = 1,
      max_commute_time_minutes = 60, min_school_rating = 1, must_have_features = [],
      lifestyle_preferences = [], size_preference = ''any'', min_garage_spaces = 0\<rparr>"

definition denver_preferences :: UserPreferences where
  "denver_preferences = default_preferences\<lparr>city := Some ''Denver''\<rparr>"

definition frugal_preferences :: UserPreferences where
  "frugal_preferences = default_preferences\<lparr>budget_min := 0, budget_max := 1000\<rparr>"

definition example_request :: "UserPreferences \<Rightarrow> int \<Rightarrow> RecommendationRequest" where
  "example_request prefs n = \<lparr>user_preferences = prefs, max_results = n\<rparr>"

section \<open>The handler, stage by stage\<close>

subsection \<open>The filter block and the shape of the result\<close>

lemma extends_refl: "extends s s" by (simp add: extends_def)

lemma yields_new_frame:
  "extends s0 s \<Longrightarrow> yields s0 F (new_frame F s)"
  by (simp add: yields_def extends_def new_frame_def)

lemma yields_copy: "yields s0 (heap s0 (property_data s0)) (df_copy (property_data s0) s0)"
  by (simp add: df_copy_def yields_new_frame extends_refl)

lemma yields_mask: "yields s0 F (a, s) \<Longrightarrow> yields s0 (filter P F) (df_getitem_mask P a s)"
  by (simp add: df_getitem_mask_def yields_def extends_def new_frame_def)

lemma filter_data_yields:
  "yields s0 (filter (satisfies_preferences prefs) (heap s0 (property_data s0))) (filter_data prefs s0)"
proof -
  let ?D = "heap s0 (property_data s0)"
  obtain a1 s1 where e1: "df_copy (property_data s0) s0 = (a1, s1)" by fastforce
  have h1: "yields s0 ?D (a1, s1)" using yields_copy [of s0] e1 by simp
  let ?P2 = "\<lambda>r. budget_min prefs \<le> col_price r \<and> col_price r \<le> budget_max prefs"
  obtain a2 s2 where e2: "df_getitem_mask ?P2 a1 s1 = (a2, s2)" by fastforce
  have h2: "yields s0 (filter ?P2 ?D) (a2, s2)" using yields_mask [OF h1, of ?P2] e2 by simp
  let ?P3 = "\<lambda>r. min_bedrooms prefs \<le> col_bedrooms r"
  obtain a3 s3 where e3: "df_getitem_mask ?P3 a2 s2 = (a3, s3)" by fastforce
  have h3: "yields s0 (filter ?P3 (filter ?P2 ?D)) (a3, s3)"
    using yields_mask [OF h2, of ?P3] e3 by simp
  let ?P4 = "\<lambda>r. col_commute_time_min r \<le> max_commute_time_minutes prefs"
  obtain a4 s4 where e4: "df_getitem_mask ?P4 a3 s3 = (a4, s4)" by fastforce
  have h4: "yields s0 (filter ?P4 (filter ?P3 (filter ?P2 ?D))) (a4, s4)"
    using yields_mask [OF h3, of ?P4] e4 by simp
  let ?P5 = "\<lambda>r. min_school_rating prefs \<le> col_school_rating r"
  obtain a5 s5 where e5: "df_getitem_mask ?P5 a4 s4 = (a5, s5)" by fastforce
  have h5: "yields s0 (filter ?P5 (filter ?P4 (filter ?P3 (filter ?P2 ?D)))) (a5, s5)"
    using yields_mask [OF h4, of ?P5] e5 by simp
  let ?P6 = "\<lambda>r. case city prefs of None \<Rightarrow> True | Some c \<Rightarrow> c = [] \<or> col_city r = c"
  obtain a6 s6 where e6: "(case city prefs of None \<Rightarrow> (a5, s5)
      | Some c \<Rightarrow> if c \<noteq> [] then df_getitem_mask (\<lambda>r. col_city r = c) a5 s5 else (a5, s5)) = (a6, s6)"
    by fastforce
  have h6: "yields s0 (filter ?P6 (filter ?P5 (filter ?P4 (filter ?P3 (filter ?P2 ?D))))) (a6, s6)"
  proof (cases "city prefs")
    case None
    with e6 h5 show ?thesis by simp
  next
    case (Some c)
    show ?thesis
    proof (cases "c = []")
      case True
      with Some e6 h5 show ?thesis by simp
    next
      case False
      with Some e6 yields_mask [OF h5, of "\<lambda>r. col_city r = c"] show ?thesis by simp
    qed
  qed
  let ?P7 = "\<lambda>r. ''pool'' \<in> set (must_have_features prefs) \<longrightarrow> col_has_pool r"
  obtain a7 s7 where e7: "(if ''pool'' \<in> set (must_have_features prefs)
      then df_getitem_mask (\<lambda>r. col_has_pool r = True) a6 s6 else (a6, s6)) = (a7, s7)"
    by fastforce
  have h7: "yields s0 (filter ?P7 (filter ?P6 (filter ?P5 (filter ?P4 (filter ?P3 (filter ?P2 ?D))))))
      (a7, s7)"
  proof (cases "''pool'' \<in> set (must_have_features prefs)")
    case True
    with e7 yields_mask [OF h6, of "\<lambda>r. col_has_pool r = True"] show ?thesis by simp
  next
    case False
    with e7 h6 show ?thesis by simp
  qed
  let ?P8 = "\<lambda>r. min_garage_spaces prefs \<le> col_garage_spaces r"
  have h8: "yields s0 (filter ?P8 (filter ?P7 (filter ?P6 (filter ?P5 (filter ?P4 (filter ?P3
      (filter ?P2 ?D))))))) (df_getitem_mask ?P8 a7 s7)"
    by (rule yields_mask [OF h7])
  have eq: "filter_data prefs s0 = df_getitem_mask ?P8 a7 s7"
    unfolding filter_data_def Let_def e1 prod.case e2 e3 e4 e5 e6 e7 ..
  have "filter ?P8 (filter ?P7 (filter ?P6 (filter ?P5 (filter ?P4 (filter ?P3 (filter ?P2 ?D))))))
      = filter (satisfies_preferences prefs) ?D"
    unfolding filter_filter satisfies_preferences_def by (rule filter_cong) auto
  with h8 eq show ?thesis by simp
qed


lemma recommend_properties_fst:
  "fst (recommend_properties sv req s0) =
     (if heap s0 (property_data s0) = [] then Inl (HTTPException 500 ''No property data available'')
      else if filter (satisfies_preferences (user_preferences req)) (heap s0 (property_data s0)) = []
      then Inr \<lparr>recommendations = []\<rparr>
      else
        case model_prediction (model_bundle s0)
               (filter (satisfies_preferences (user_preferences req)) (heap s0 (property_data s0))) of
          Inl e \<Rightarrow> Inl e
        | Inr preds \<Rightarrow>
            if length preds \<noteq>
               length (filter (satisfies_preferences (user_preferences req))
                         (heap s0 (property_data s0)))
            then Inl ValueError
            else (case build_recommendations
                         (head (max_results req)
                            (sv (assign_score
                                   (filter (satisfies_preferences (user_preferences req))
                                      (heap s0 (property_data s0))) preds))) of
                    Inl e \<Rightarrow> Inl e
                  | Inr recs \<Rightarrow> Inr \<lparr>recommendations = recs\<rparr>))"
proof -
  obtain df s where fd: "filter_data (user_preferences req) s0 = (df, s)" by fastforce
  from filter_data_yields [of s0 "user_preferences req"] fd
  have "heap s df = filter (satisfies_preferences (user_preferences req)) (heap s0 (property_data s0))"
    and "model_bundle s = model_bundle s0"
    by (simp_all add: yields_def extends_def)
  then show ?thesis
    by (simp add: recommend_properties_def fd df_empty_def df_setitem_score_def df_sort_values_def
        df_head_def new_frame_def Let_def split: sum.splits)
qed

lemma recommend_properties_extends:
  "extends s0 (snd (recommend_properties sv req s0))"
proof -
  obtain df s where fd: "filter_data (user_preferences req) s0 = (df, s)" by fastforce
  from filter_data_yields [of s0 "user_preferences req"] fd
  have "extends s0 s" and "next_addr s0 \<le> df"
    by (simp_all add: yields_def)
  then show ?thesis
    by (auto simp add: recommend_properties_def fd df_empty_def df_setitem_score_def df_sort_values_def
        df_head_def new_frame_def Let_def extends_def split: sum.splits)
qed


lemma recommend_properties_success:
  assumes "fst (recommend_properties sv req s0) = Inr resp"
  defines "C \<equiv> filter (satisfies_preferences (user_preferences req)) (heap s0 (property_data s0))"
  shows "(C = [] \<and> recommendations resp = []) \<or>
     (\<exists>preds. C \<noteq> [] \<and> model_prediction (model_bundle s0) C = Inr preds \<and> length preds = length C
        \<and> build_recommendations (head (max_results req) (sv (assign_score C preds)))
            = Inr (recommendations resp))"
  using assms(1) unfolding recommend_properties_fst C_def
  by (auto split: if_splits sum.splits)

subsection \<open>The loop that builds the response\<close>

lemma row_recommendation_Inr:
  assumes "row_recommendation r = Inr x"
  shows "\<exists>sc y. col_score r = Some sc \<and> property_id x = col_property_id r
     \<and> address x = col_address r \<and> price x = col_price r
     \<and> float_mul sc 100 = Some y \<and> py_round y 2 = Some (score x)"
  using assms by (auto simp: row_recommendation_def Let_def split: option.splits)

lemma build_recommendations_Inr:
  "build_recommendations rows = Inr recs \<longleftrightarrow>
     list_all2 (\<lambda>r x. row_recommendation r = Inr x) rows recs"
proof (induction rows arbitrary: recs)
  case Nil
  show ?case by auto
next
  case (Cons r rows)
  show ?case
    by (auto simp: list_all2_Cons1 Cons.IH [symmetric] split: sum.splits)
qed

subsection \<open>Sorting and truncation\<close>

lemma contract_set: "sort_values_contract sv \<Longrightarrow> set (sv df) = set df"
  by (metis sort_values_contract_def set_mset_mset)

lemma contract_length: "sort_values_contract sv \<Longrightarrow> length (sv df) = length df"
  by (metis sort_values_contract_def size_mset)

lemma contract_sorted:
  "sort_values_contract sv \<Longrightarrow> sorted_wrt (\<lambda>a b. col_score b \<le> col_score a) (sv df)"
  by (simp add: sort_values_contract_def)

lemma sort_descending_contract: "sort_values_contract sort_descending"
  unfolding sort_values_contract_def sort_descending_def
proof (intro allI conjI)
  fix df :: DataFrame
  show "mset (rev (sort_key col_score (rev df))) = mset df" by simp
  have "sorted (map col_score (sort_key col_score (rev df)))" by (rule sorted_sort_key)
  then have "sorted_wrt (\<lambda>a b. col_score a \<le> col_score b) (sort_key col_score (rev df))"
    by (simp add: sorted_map)
  then show "sorted_wrt (\<lambda>a b. col_score b \<le> col_score a) (rev (sort_key col_score (rev df)))"
    by (simp add: sorted_wrt_rev)
qed

text \<open>On a frame whose scores are distinct the contract leaves no choice.\<close>

lemma sort_values_unique:
  assumes "sort_values_contract sv" and "sort_values_contract sv'"
    and "distinct (map col_score df)"
  shows "sv df = sv' df"
proof -
  have keys: "rev (map col_score (sv df)) = rev (map col_score (sv' df))"
  proof (rule sorted_distinct_set_unique)
    show "sorted (rev (map col_score (sv df)))" "sorted (rev (map col_score (sv' df)))"
      using contract_sorted [OF assms(1), of df] contract_sorted [OF assms(2), of df]
      by (simp_all add: sorted_wrt_rev sorted_wrt_map flip: rev_map)
    have "mset (map col_score (sv df)) = mset (map col_score df)"
      "mset (map col_score (sv' df)) = mset (map col_score df)"
      using assms(1,2) by (simp_all add: sort_values_contract_def)
    then show "distinct (rev (map col_score (sv df)))" "distinct (rev (map col_score (sv' df)))"
      "set (rev (map col_score (sv df))) = set (rev (map col_score (sv' df)))"
      using assms(3) by (metis distinct_rev mset_eq_imp_distinct_iff, metis distinct_rev mset_eq_imp_distinct_iff,
          metis set_rev mset_eq_setD)
  qed
  from assms(3) have "inj_on col_score (set df)" by (simp add: distinct_map)
  then have "inj_on col_score (set (sv df) \<union> set (sv' df))"
    by (simp add: contract_set [OF assms(1)] contract_set [OF assms(2)])
  with keys show ?thesis by (simp add: inj_on_map_eq_map)
qed

lemma head_take: "\<exists>k. head n xs = take k xs"
  by (auto simp: head_def)

lemma set_head: "set (head n xs) \<subseteq> set xs"
  using head_take [of n xs] by (auto dest: in_set_takeD)

lemma length_head: "length (head n xs) \<le> length xs"
  by (simp add: head_def)

lemma length_head_nonneg: "0 \<le> n \<Longrightarrow> int (length (head n xs)) \<le> n"
  by (simp add: head_def)

subsection \<open>Attaching the scores\<close>

lemma in_assign_score:
  assumes "length preds = length df" "r \<in> set (assign_score df preds)"
  shows "\<exists>i < length df. r = (df ! i)\<lparr>col_score := Some (preds ! i)\<rparr>"
proof -
  from assms obtain i where "i < length df" "r = (df ! i)\<lparr>col_score := Some (preds ! i)\<rparr>"
    by (auto simp: assign_score_def in_set_conv_nth)
  then show ?thesis by blast
qed

subsection \<open>Rounding to a double\<close>

lemma round_half_even_mono:
  assumes "x \<le> y"
  shows "round_half_even x \<le> round_half_even y"
proof (cases "\<lfloor>x\<rfloor> < \<lfloor>y\<rfloor>")
  case True
  have "round_half_even x \<le> \<lfloor>x\<rfloor> + 1" by (simp add: round_half_even_def Let_def)
  moreover have "\<lfloor>y\<rfloor> \<le> round_half_even y" by (simp add: round_half_even_def Let_def)
  ultimately show ?thesis using True by linarith
next
  case False
  with assms have eq: "\<lfloor>x\<rfloor> = \<lfloor>y\<rfloor>" using floor_mono [of x y] by linarith
  with assms show ?thesis by (simp add: round_half_even_def Let_def)
qed

lemma round_half_even_of_int: "round_half_even (of_int k) = k"
  by (simp add: round_half_even_def)

lemma floor_log2_bounds:
  assumes "0 < x"
  shows "2 powi (floor_log2 x) \<le> x" and "x < 2 powi (floor_log2 x + 1)"
proof -
  obtain a b where q: "quotient_of x = (a, b)" by fastforce
  then have b: "0 < b" and x: "x = of_int a / of_int b"
    by (rule quotient_of_denom_pos, rule quotient_of_div)
  from assms b x have a: "0 < a" by (simp add: zero_less_divide_iff)
  define la lb where "la = bitlen a" and "lb = bitlen b"
  from a b have la: "1 \<le> la" and lb: "1 \<le> lb"
    by (simp_all add: la_def lb_def bitlen_alt_def)
  from bitlen_bounds [OF a] have a_lo: "(2::int) ^ nat (la - 1) \<le> a" and a_hi: "a < 2 ^ nat la"
    by (simp_all add: la_def)
  from bitlen_bounds [OF b] have b_lo: "(2::int) ^ nat (lb - 1) \<le> b" and b_hi: "b < 2 ^ nat lb"
    by (simp_all add: lb_def)
  have pa: "(2::rat) powi (la - 1) = of_int (2 ^ nat (la - 1))" "(2::rat) powi la = of_int (2 ^ nat la)"
    using la by (simp_all add: power_int_def)
  have pb: "(2::rat) powi (lb - 1) = of_int (2 ^ nat (lb - 1))" "(2::rat) powi lb = of_int (2 ^ nat lb)"
    using lb by (simp_all add: power_int_def)
  have lo: "(2::rat) powi (la - lb - 1) \<le> x"
  proof -
    have "(2::rat) powi (la - lb - 1) = 2 powi (la - 1) / 2 powi lb"
      using power_int_diff [of "2::rat" "la - 1" lb] by (simp add: algebra_simps)
    also have "\<dots> \<le> of_int a / of_int b"
      unfolding pa pb using a_lo b_hi a b by (intro frac_le) simp_all
    finally show ?thesis by (simp add: x)
  qed
  have hi: "x < (2::rat) powi (la - lb + 1)"
  proof -
    have "of_int a / of_int b < (2::rat) powi la / 2 powi (lb - 1)"
      unfolding pa pb using a_hi b_lo a b by (intro frac_less) simp_all
    also have "\<dots> = 2 powi (la - lb + 1)"
      using power_int_diff [of "2::rat" la "lb - 1"] by (simp add: algebra_simps)
    finally show ?thesis by (simp add: x)
  qed
  have fl: "floor_log2 x = (if 2 powi (la - lb) \<le> x then la - lb else la - lb - 1)"
    by (simp add: floor_log2_def q la_def lb_def Let_def)
  show "2 powi (floor_log2 x) \<le> x" using lo by (simp add: fl)
  show "x < 2 powi (floor_log2 x + 1)" using hi by (auto simp: fl not_le)
qed

lemma to_double_bounds:
  assumes "to_double x = Some y" and "0 \<le> x" and "x \<le> 100"
  shows "0 \<le> y \<and> y \<le> 100"
proof (cases "x = 0")
  case True
  with assms(1) show ?thesis by (simp add: to_double_def)
next
  case False
  with assms(2) have pos: "0 < x" by simp
  define e where "e = max (floor_log2 \<bar>x\<bar> - 52) (- 1074)"
  define q :: rat where "q = 2 powi e"
  have q: "0 < q" by (simp add: q_def zero_less_power_int)
  from assms(1) False have y: "y = of_int (round_half_even (x / q)) * q"
    by (simp add: to_double_def Let_def q_def e_def split: if_splits)
  have "(2::rat) powi (floor_log2 x) \<le> x" by (rule floor_log2_bounds [OF pos])
  also have "x < 2 powi 7" using assms(3) by simp
  finally have "floor_log2 x < 7"
    by (rule power_int_le_imp_less_exp [rotated]) simp_all
  with pos have e: "e \<le> 2" by (simp add: e_def)
  have "(100::rat) = 25 * 2 powi 2" by simp
  also have "(2::rat) powi 2 = 2 powi (2 - e) * 2 powi e"
    using power_int_add [of "2::rat" "2 - e" e] by simp
  also have "(2::rat) powi (2 - e) = of_int (2 ^ nat (2 - e))"
    using e by (simp add: power_int_def)
  finally have hundred: "(100::rat) = of_int (25 * 2 ^ nat (2 - e)) * q"
    by (simp add: q_def)
  have "x / q \<le> of_int (25 * 2 ^ nat (2 - e))"
    using assms(3) q by (subst (asm) hundred) (simp add: pos_divide_le_eq)
  then have "round_half_even (x / q) \<le> 25 * 2 ^ nat (2 - e)"
    using round_half_even_mono round_half_even_of_int by metis
  then have "of_int (round_half_even (x / q)) * q \<le> of_int (25 * 2 ^ nat (2 - e)) * q"
    using q by (intro mult_right_mono) (simp_all only: of_int_le_iff less_imp_le)
  then have upper: "y \<le> 100" unfolding y hundred [symmetric] .
  have "0 \<le> x / q" using pos q by simp
  then have "round_half_even 0 \<le> round_half_even (x / q)" by (rule round_half_even_mono)
  then have "0 \<le> round_half_even (x / q)"
    using round_half_even_of_int [of 0] by simp
  then have "0 \<le> y" unfolding y using q by simp
  with upper show ?thesis by simp
qed

text \<open>Every double is its own rounding.\<close>

lemma to_double_exact:
  assumes x: "x = of_int k * 2 powi e" and k: "\<bar>k\<bar> < 2 ^ 53" and e: "- 1074 \<le> e" "e \<le> 971"
  shows "to_double x = Some x"
proof (cases "k = 0")
  case True
  with x show ?thesis by (simp add: to_double_def)
next
  case False
  with x have nz: "x \<noteq> 0" by simp
  then have pos: "0 < \<bar>x\<bar>" by simp
  have "\<bar>x\<bar> = of_int \<bar>k\<bar> * 2 powi e"
    by (simp add: x abs_mult power_int_abs)
  also have "\<dots> < of_int (2 ^ 53) * 2 powi e"
    using k by (intro mult_strict_right_mono) (simp_all only: of_int_less_iff zero_less_power_int zero_less_numeral)
  also have "\<dots> = 2 powi (53 + e)"
    using power_int_add [of "2::rat" 53 e] by simp
  finally have below: "\<bar>x\<bar> < 2 powi (53 + e)" .
  define m where "m = floor_log2 \<bar>x\<bar>"
  have "2 powi m \<le> \<bar>x\<bar>" unfolding m_def by (rule floor_log2_bounds [OF pos])
  with below have "(2::rat) powi m < 2 powi (53 + e)" by simp
  then have m: "m < 53 + e"
    using power_int_increasing [of "53 + e" m "2::rat"] by (cases "m < 53 + e") simp_all
  define e' where "e' = max (m - 52) (- 1074)"
  from m e have e': "e' \<le> e" by (simp add: e'_def)
  define q :: rat where "q = 2 powi e'"
  have q: "q \<noteq> 0" by (simp add: q_def)
  have "(2::rat) powi e = 2 powi (e - e') * q"
    using power_int_add [of "2::rat" "e - e'" e'] by (simp add: q_def)
  also have "(2::rat) powi (e - e') = of_int (2 ^ nat (e - e'))"
    using e' by (simp add: power_int_def)
  finally have xq: "x = of_int (k * 2 ^ nat (e - e')) * q"
    by (simp add: x)
  then have "x / q = of_int (k * 2 ^ nat (e - e'))" using q by simp
  then have "of_int (round_half_even (x / q)) * q = x"
    using round_half_even_of_int [of "k * 2 ^ nat (e - e')"] xq by simp
  moreover have "\<bar>x\<bar> < 2 powi 1024"
    using below power_int_increasing [of "53 + e" 1024 "2::rat"] e by simp
  ultimately show ?thesis
    using nz by (simp add: to_double_def Let_def q_def e'_def m_def)
qed

lemma score_bounds:
  assumes "float_mul p 100 = Some y" "py_round y 2 = Some s" "0 \<le> p" "p \<le> 1"
  shows "0 \<le> s \<and> s \<le> 100"
proof -
  from assms(1,3,4) have y: "0 \<le> y \<and> y \<le> 100"
    by (intro to_double_bounds [of "p * 100"]) (simp_all add: float_mul_def)
  define k where "k = round_half_even (y * 100)"
  from y have "round_half_even 0 \<le> k" "k \<le> round_half_even (of_int 10000)"
    unfolding k_def by (intro round_half_even_mono; simp)+
  then have k: "0 \<le> k" "k \<le> 10000"
    using round_half_even_of_int [of 0] round_half_even_of_int [of 10000] by simp_all
  from assms(2) have "to_double (of_int k / 100) = Some s"
    by (simp add: py_round_def k_def)
  moreover from k have "0 \<le> (of_int k :: rat) / 100" "(of_int k :: rat) / 100 \<le> 100"
    by simp_all
  ultimately show ?thesis by (rule to_double_bounds)
qed

subsection \<open>Where a recommendation comes from\<close>

lemma list_all2_pre_image:
  "list_all2 R xs ys \<Longrightarrow> y \<in> set ys \<Longrightarrow> \<exists>x \<in> set xs. R x y"
  by (induction rule: list_all2_induct) auto

lemma recommendation_origin:
  assumes "sort_values_contract sv"
    and "fst (recommend_properties sv req s) = Inr resp"
    and "x \<in> set (recommendations resp)"
  defines "C \<equiv> filter (satisfies_preferences (user_preferences req)) (heap s (property_data s))"
  shows "\<exists>preds i y. model_prediction (model_bundle s) C = Inr preds \<and> length preds = length C
     \<and> i < length C \<and> property_id x = col_property_id (C ! i) \<and> address x = col_address (C ! i)
     \<and> price x = col_price (C ! i)
     \<and> float_mul (preds ! i) 100 = Some y \<and> py_round y 2 = Some (score x)"
proof -
  from recommend_properties_success [OF assms(2)] assms(3)
  obtain preds where mp: "model_prediction (model_bundle s) C = Inr preds"
    and len: "length preds = length C"
    and build: "build_recommendations (head (max_results req) (sv (assign_score C preds)))
                  = Inr (recommendations resp)"
    unfolding C_def by auto
  from build assms(3) obtain r
    where r: "r \<in> set (head (max_results req) (sv (assign_score C preds)))"
      and rr: "row_recommendation r = Inr x"
    unfolding build_recommendations_Inr by (blast dest: list_all2_pre_image)
  from r set_head [of "max_results req" "sv (assign_score C preds)"]
  have "r \<in> set (sv (assign_score C preds))" by (rule subsetD [rotated])
  with assms(1) have "r \<in> set (assign_score C preds)" by (simp add: contract_set)
  from in_assign_score [OF len this]
  obtain i where i: "i < length C" "r = (C ! i)\<lparr>col_score := Some (preds ! i)\<rparr>"
    by blast
  from row_recommendation_Inr [OF rr] i(2)
  obtain y where "property_id x = col_property_id (C ! i) \<and> address x = col_address (C ! i)
     \<and> price x = col_price (C ! i)
     \<and> float_mul (preds ! i) 100 = Some y \<and> py_round y 2 = Some (score x)"
    by auto
  with mp len i(1) show ?thesis by blast
qed

section \<open>Evaluating the handler on the example inputs\<close>

lemmas example_defs =
  example_request_def denver_preferences_def default_preferences_def example_state_def
  example_bundle_def example_classifier_def example_regressor_def
  example_scaler_def empty_bundle_def row_P1_def row_P2_def row_P3_def cell_value_def

lemmas eval_defs =
  satisfies_preferences_def model_prediction_def df_getitem_columns_def column_def column_1_def
  assign_score_def sort_descending_def head_def row_recommendation_def
  Let_def str_int_def str_nat.simps digit_def

text \<open>The float operations on the scores of the examples.\<close>

lemma example_products:
  "float_mul (9 / 16) 100 = Some (225 / 4)" "float_mul (1 / 2) 100 = Some 50"
  "float_mul 4 100 = Some 400" "float_mul 3 100 = Some 300"
  using to_double_exact [of "225 / 4" 225 "- 2"] to_double_exact [of 50 50 0]
    to_double_exact [of 400 400 0] to_double_exact [of 300 300 0]
  by (simp_all add: float_mul_def)

lemma example_rounds:
  "py_round (225 / 4) 2 = Some (225 / 4)" "py_round 50 2 = Some 50"
  "py_round 400 2 = Some 400" "py_round 300 2 = Some 300"
  using to_double_exact [of "225 / 4" 225 "- 2"] to_double_exact [of 50 50 0]
    to_double_exact [of 400 400 0] to_double_exact [of 300 300 0]
  by (simp_all add: py_round_def round_half_even_def)

lemma example_candidates:
  "filter (satisfies_preferences denver_preferences) [row_P1, row_P2, row_P3] = [row_P1, row_P2]"
  by (simp add: example_defs satisfies_preferences_def)

lemma example_table:
  "heap (example_state b) (property_data (example_state b)) = [row_P1, row_P2, row_P3]"
  by (simp add: example_state_def)

lemma example_response_classifier:
  "fst (recommend_properties sort_descending (example_request denver_preferences 3)
          (example_state (example_bundle example_classifier))) =
   Inr \<lparr>recommendations =
        [\<lparr>property_id = ''P2'', address = ''2 Oak Ave'', price = 500000, score = 225 / 4,
            reason = ''Located in Denver, 4 BR, $500000 - School rating: 9''\<rparr>,
         \<lparr>property_id = ''P1'', address = ''1 Elm St'', price = 400000, score = 50,
            reason = ''Located in Denver, 3 BR, $400000 - School rating: 8''\<rparr>]\<rparr>"
  by (simp add: recommend_properties_fst example_defs eval_defs example_products example_rounds)

section \<open>The properties of the specification\<close>

subsection \<open>C1: the Preference Filter\<close>

text \<open>
  Claim C1. For every property table and every preferences value, the frame the filter
  block produces holds exactly the rows of the table that satisfy all seven predicates,
  in the order of the table (\<open>filter\<close> keeps the order). Consequently every
  recommendation of a successful response carries the identifier, address and price of a
  row of the table that satisfies all of them. A city counts as specified when it is a
  non-empty string.
\<close>

theorem preference_filter_exact:
  "heap (snd (filter_data (user_preferences req) s)) (fst (filter_data (user_preferences req) s))
     = filter (satisfies_preferences (user_preferences req)) (heap s (property_data s))
   \<and> (sort_values_contract sv \<longrightarrow> fst (recommend_properties sv req s) = Inr resp
        \<longrightarrow> x \<in> set (recommendations resp)
        \<longrightarrow> (\<exists>r \<in> set (heap s (property_data s)).
               satisfies_preferences (user_preferences req) r
               \<and> property_id x = col_property_id r \<and> address x = col_address r
               \<and> price x = col_price r))"
proof (intro conjI impI)
  from filter_data_yields [of s "user_preferences req"]
  show "heap (snd (filter_data (user_preferences req) s))
          (fst (filter_data (user_preferences req) s))
        = filter (satisfies_preferences (user_preferences req)) (heap s (property_data s))"
    by (simp add: yields_def)
next
  let ?C = "filter (satisfies_preferences (user_preferences req)) (heap s (property_data s))"
  assume "sort_values_contract sv" "fst (recommend_properties sv req s) = Inr resp"
    "x \<in> set (recommendations resp)"
  from recommendation_origin [OF this]
  obtain i where i: "i < length ?C" "property_id x = col_property_id (?C ! i)"
    "address x = col_address (?C ! i)" "price x = col_price (?C ! i)"
    by blast
  from i(1) have "?C ! i \<in> set ?C" by (rule nth_mem)
  then have "?C ! i \<in> set (heap s (property_data s))"
    and "satisfies_preferences (user_preferences req) (?C ! i)"
    by simp_all
  with i show "\<exists>r \<in> set (heap s (property_data s)).
      satisfies_preferences (user_preferences req) r
      \<and> property_id x = col_property_id r \<and> address x = col_address r \<and> price x = col_price r"
    by blast
qed

theorem preference_filter_exact_witness:
  "heap (snd (filter_data denver_preferences (example_state (example_bundle example_classifier))))
        (fst (filter_data denver_preferences (example_state (example_bundle example_classifier))))
     = [row_P1, row_P2]
   \<and> sort_values_contract sort_descending
   \<and> (\<exists>r \<in> set [row_P1, row_P2, row_P3].
         satisfies_preferences denver_preferences r \<and> ''P2'' = col_property_id r
         \<and> ''2 Oak Ave'' = col_address r \<and> 500000 = col_price r)"
  using preference_filter_exact [of "example_request denver_preferences 3"
      "example_state (example_bundle example_classifier)" sort_descending
      "\<lparr>recommendations =
        [\<lparr>property_id = ''P2'', address = ''2 Oak Ave'', price = 500000, score = 225 / 4,
            reason = ''Located in Denver, 4 BR, $500000 - School rating: 9''\<rparr>,
         \<lparr>property_id = ''P1'', address = ''1 Elm St'', price = 400000, score = 50,
            reason = ''Located in Denver, 3 BR, $400000 - School rating: 8''\<rparr>]\<rparr>"
      "\<lparr>property_id = ''P2'', address = ''2 Oak Ave'', price = 500000, score = 225 / 4,
            reason = ''Located in Denver, 4 BR, $500000 - School rating: 9''\<rparr>"]
    sort_descending_contract example_response_classifier example_candidates
  by (simp add: example_table example_request_def)


subsection \<open>C2: the score field\<close>

text \<open>
  Claim C2, as stated, bounds every score by 0 and 100. The handler takes the raw output
  of \<^verbatim>\<open>model.predict\<close> when the model has no \<^verbatim>\<open>predict_proba\<close>, and that output is
  not bounded: the example regressor scores the two Denver rows 4 and 3, and the response
  carries the scores 400 and 300.
\<close>

theorem score_out_of_range:
  "fst (recommend_properties sort_descending (example_request denver_preferences 3)
          (example_state (example_bundle example_regressor))) =
   Inr \<lparr>recommendations =
        [\<lparr>property_id = ''P2'', address = ''2 Oak Ave'', price = 500000, score = 400,
            reason = ''Located in Denver, 4 BR, $500000 - School rating: 9''\<rparr>,
         \<lparr>property_id = ''P1'', address = ''1 Elm St'', price = 400000, score = 300,
            reason = ''Located in Denver, 3 BR, $400000 - School rating: 8''\<rparr>]\<rparr>
   \<and> \<not> (400 :: rat) \<le> 100"
  by (simp add: recommend_properties_fst example_defs eval_defs example_products example_rounds)

text \<open>
  Claim C2, amended. In every successful response, each recommendation belongs to a
  candidate row, and its score is computed from the model's score \<open>p\<close> for that row as
  the handler writes it: the float product of \<open>p\<close> and 100, then \<^verbatim>\<open>round\<close> to two
  places. The score is therefore the double nearest to a whole number of hundredths. It
  lies between 0 and 100 whenever \<open>p\<close> lies between 0 and 1.
\<close>

theorem score_rescaled:
  assumes "sort_values_contract sv"
    and "fst (recommend_properties sv req s) = Inr resp"
    and "x \<in> set (recommendations resp)"
  shows "\<exists>preds i y.
      model_prediction (model_bundle s)
        (filter (satisfies_preferences (user_preferences req)) (heap s (property_data s)))
        = Inr preds
      \<and> i < length preds
      \<and> property_id x
          = col_property_id
              (filter (satisfies_preferences (user_preferences req)) (heap s (property_data s)) ! i)
      \<and> float_mul (preds ! i) 100 = Some y
      \<and> py_round y 2 = Some (score x)
      \<and> (\<exists>k::int. to_double (of_int k / 100) = Some (score x))
      \<and> (0 \<le> preds ! i \<and> preds ! i \<le> 1 \<longrightarrow> 0 \<le> score x \<and> score x \<le> 100)"
proof -
  let ?C = "filter (satisfies_preferences (user_preferences req)) (heap s (property_data s))"
  from recommendation_origin [OF assms]
  obtain preds i y where mp: "model_prediction (model_bundle s) ?C = Inr preds"
    and i: "i < length preds" "property_id x = col_property_id (?C ! i)"
    and prod: "float_mul (preds ! i) 100 = Some y"
    and rnd: "py_round y 2 = Some (score x)"
    by auto
  from rnd have "\<exists>k::int. to_double (of_int k / 100) = Some (score x)"
    by (auto simp: py_round_def)
  moreover have "0 \<le> preds ! i \<and> preds ! i \<le> 1 \<longrightarrow> 0 \<le> score x \<and> score x \<le> 100"
    using score_bounds [OF prod rnd] by blast
  ultimately show ?thesis using mp i prod rnd by blast
qed

theorem score_rescaled_witness:
  "sort_values_contract sort_descending
   \<and> (\<exists>preds i y.
        model_prediction (example_bundle example_classifier) [row_P1, row_P2] = Inr preds
        \<and> i < length preds
        \<and> ''P2'' = col_property_id ([row_P1, row_P2] ! i)
        \<and> float_mul (preds ! i) 100 = Some y
        \<and> py_round y 2 = Some (225 / 4)
        \<and> (\<exists>k::int. to_double (of_int k / 100) = Some (225 / 4))
        \<and> (0 \<le> preds ! i \<and> preds ! i \<le> 1 \<longrightarrow> (0 :: rat) \<le> 225 / 4 \<and> (225 / 4 :: rat) \<le> 100))"
  using score_rescaled [of sort_descending "example_request denver_preferences 3"
      "example_state (example_bundle example_classifier)"
      "\<lparr>recommendations =
        [\<lparr>property_id = ''P2'', address = ''2 Oak Ave'', price = 500000, score = 225 / 4,
            reason = ''Located in Denver, 4 BR, $500000 - School rating: 9''\<rparr>,
         \<lparr>property_id = ''P1'', address = ''1 Elm St'', price = 400000, score = 50,
            reason = ''Located in Denver, 3 BR, $400000 - School rating: 8''\<rparr>]\<rparr>"
      "\<lparr>property_id = ''P2'', address = ''2 Oak Ave'', price = 500000, score = 225 / 4,
            reason = ''Located in Denver, 4 BR, $500000 - School rating: 9''\<rparr>"]
    sort_descending_contract example_response_classifier example_candidates
  by (simp add: example_table example_request_def example_state_def)

subsection \<open>C4: a request while the model bundle is absent\<close>

text \<open>
  Claim C4 asks for a clear error when the bundle is absent. With a table that is not
  empty, the empty dictionary left by a failed load and at least one row passing the
  filter, the handler returns no scores, but what ends the request is the
  \<^verbatim>\<open>KeyError\<close> of the unguarded read \<^verbatim>\<open>model_bundle['model']\<close>.
\<close>

lemma absent_bundle_key_error:
  assumes "model_bundle s = empty_bundle"
    and "filter (satisfies_preferences (user_preferences req)) (heap s (property_data s)) \<noteq> []"
  shows "fst (recommend_properties sv req s) = Inl (KeyError ''model'')"
proof -
  from assms(2) have "heap s (property_data s) \<noteq> []" by auto
  with assms show ?thesis
    by (simp add: recommend_properties_fst model_prediction_def empty_bundle_def)
qed

text \<open>
  Claim C4 at the example table, with the empty bundle and the request for Denver: the
  result is that \<^verbatim>\<open>KeyError\<close>, which is not an \<^verbatim>\<open>HTTPException\<close>. The check of the
  empty table, two blocks earlier, raises an \<^verbatim>\<open>HTTPException\<close> with status and detail;
  the absent bundle has no such check.
\<close>

theorem absent_bundle_unhandled:
  "fst (recommend_properties sort_descending (example_request denver_preferences 3)
          (example_state empty_bundle)) = Inl (KeyError ''model'')
   \<and> \<not> is_http_exception (KeyError ''model'')
   \<and> is_http_exception
        (HTTPException 500 ''No property data available'')"
proof -
  have "model_bundle (example_state empty_bundle) = empty_bundle"
    by (simp add: example_state_def)
  moreover have "filter (satisfies_preferences (user_preferences (example_request denver_preferences 3)))
      (heap (example_state empty_bundle) (property_data (example_state empty_bundle))) \<noteq> []"
    using example_candidates by (simp add: example_table example_request_def)
  ultimately have "fst (recommend_properties sort_descending (example_request denver_preferences 3)
          (example_state empty_bundle)) = Inl (KeyError ''model'')"
    by (rule absent_bundle_key_error)
  then show ?thesis by (simp add: is_http_exception_def)
qed

subsection \<open>C5: a request while the table is empty\<close>

text \<open>
  Claim C5. When the table is empty the handler raises the HTTP exception with status 500
  and the detail \<^verbatim>\<open>No property data available\<close>, and it has done nothing else: the
  state is the one it started from (no copy of the table, no frame), whatever the
  preferences, the bundle and the sort are.
\<close>

theorem empty_table_fails_first:
  assumes "heap s (property_data s) = []"
  shows "recommend_properties sv req s
           = (Inl (HTTPException 500 ''No property data available''), s)"
  using assms by (simp add: recommend_properties_def df_empty_def)

theorem empty_table_fails_first_witness:
  "heap (empty_state (example_bundle example_classifier))
        (property_data (empty_state (example_bundle example_classifier))) = []
   \<and> recommend_properties sort_descending (example_request denver_preferences 3)
        (empty_state (example_bundle example_classifier))
      = (Inl (HTTPException 500 ''No property data available''),
         empty_state (example_bundle example_classifier))"
proof -
  have h: "heap (empty_state (example_bundle example_classifier))
        (property_data (empty_state (example_bundle example_classifier))) = []"
    by (simp add: empty_state_def)
  from empty_table_fails_first [OF h] h show ?thesis by simp
qed

subsection \<open>C6: a filter that leaves no row\<close>

text \<open>
  Claim C6. When the table is not empty and no row passes the filter, the handler returns
  the response with the empty list. This holds for every bundle, the empty one included,
  and for every sort: neither is consulted.
\<close>

theorem empty_result_is_success:
  assumes "heap s (property_data s) \<noteq> []"
    and "filter (satisfies_preferences (user_preferences req)) (heap s (property_data s)) = []"
  shows "fst (recommend_properties sv req (s\<lparr>model_bundle := b\<rparr>)) = Inr \<lparr>recommendations = []\<rparr>"
  using assms by (simp add: recommend_properties_fst)

theorem empty_result_is_success_witness:
  "heap (example_state (example_bundle example_classifier))
        (property_data (example_state (example_bundle example_classifier))) \<noteq> []
   \<and> filter (satisfies_preferences frugal_preferences)
        (heap (example_state (example_bundle example_classifier))
           (property_data (example_state (example_bundle example_classifier)))) = []
   \<and> fst (recommend_properties sort_descending (example_request frugal_preferences 3)
          (example_state empty_bundle)) = Inr \<lparr>recommendations = []\<rparr>"
proof -
  let ?s = "example_state (example_bundle example_classifier)"
  have h1: "heap ?s (property_data ?s) \<noteq> []" by (simp add: example_table)
  have h2: "filter (satisfies_preferences (user_preferences (example_request frugal_preferences 3)))
      (heap ?s (property_data ?s)) = []"
    by (simp add: example_table frugal_preferences_def example_defs satisfies_preferences_def)
  have "?s\<lparr>model_bundle := empty_bundle\<rparr> = example_state empty_bundle"
    by (simp add: example_state_def)
  with empty_result_is_success [OF h1 h2, of sort_descending empty_bundle] h1 h2
  show ?thesis by (simp add: example_request_def)
qed

subsection \<open>C7: the number of recommendations\<close>

text \<open>
  Claim C7, as stated, bounds the number of recommendations by \<^verbatim>\<open>max_results\<close> for
  every request. The request model accepts any integer, and \<^verbatim>\<open>head\<close> with a negative
  count drops rows from the end: with \<^verbatim>\<open>max_results = -1\<close> and two candidates the
  response has one recommendation.
\<close>

theorem more_than_max_results:
  "fst (recommend_properties sort_descending (example_request denver_preferences (- 1))
          (example_state (example_bundle example_classifier))) =
   Inr \<lparr>recommendations =
        [\<lparr>property_id = ''P2'', address = ''2 Oak Ave'', price = 500000, score = 225 / 4,
            reason = ''Located in Denver, 4 BR, $500000 - School rating: 9''\<rparr>]\<rparr>
   \<and> \<not> int (length
        [\<lparr>property_id = ''P2'', address = ''2 Oak Ave'', price = 500000, score = 225 / 4 :: rat,
            reason = ''Located in Denver, 4 BR, $500000 - School rating: 9''\<rparr>])
       \<le> max_results (example_request denver_preferences (- 1))"
  by (simp add: recommend_properties_fst example_defs eval_defs example_products example_rounds)

text \<open>
  Claim C7, amended. In every successful response the number of recommendations is at
  most the number of rows that pass the filter, and at most \<^verbatim>\<open>max_results\<close> when
  \<^verbatim>\<open>max_results\<close> is not negative.
\<close>

theorem recommendations_length:
  assumes "sort_values_contract sv"
    and "fst (recommend_properties sv req s) = Inr resp"
  shows "length (recommendations resp)
           \<le> length (filter (satisfies_preferences (user_preferences req))
                       (heap s (property_data s)))
         \<and> (0 \<le> max_results req \<longrightarrow> int (length (recommendations resp)) \<le> max_results req)"
proof -
  let ?C = "filter (satisfies_preferences (user_preferences req)) (heap s (property_data s))"
  from recommend_properties_success [OF assms(2)]
  consider "recommendations resp = []"
    | preds where "length preds = length ?C"
       "build_recommendations (head (max_results req) (sv (assign_score ?C preds)))
                  = Inr (recommendations resp)"
    by auto
  then show ?thesis
  proof cases
    case 1
    then show ?thesis by simp
  next
    case 2
    then have len: "length (recommendations resp)
        = length (head (max_results req) (sv (assign_score ?C preds)))"
      by (simp add: build_recommendations_Inr list_all2_lengthD)
    have "length (head (max_results req) (sv (assign_score ?C preds)))
        \<le> length (sv (assign_score ?C preds))"
      by (rule length_head)
    also have "\<dots> = length ?C"
      using 2(1) by (simp add: contract_length [OF assms(1)] assign_score_def)
    finally have "length (recommendations resp) \<le> length ?C" using len by simp
    moreover have "int (length (recommendations resp)) \<le> max_results req"
      if "0 \<le> max_results req"
      using length_head_nonneg [OF that, of "sv (assign_score ?C preds)"] len by simp
    ultimately show ?thesis by blast
  qed
qed

theorem recommendations_length_witness:
  "sort_values_contract sort_descending
   \<and> (0 :: int) \<le> 3
   \<and> length
        [\<lparr>property_id = ''P2'', address = ''2 Oak Ave'', price = 500000, score = 225 / 4 :: rat,
            reason = ''Located in Denver, 4 BR, $500000 - School rating: 9''\<rparr>,
         \<lparr>property_id = ''P1'', address = ''1 Elm St'', price = 400000, score = 50,
            reason = ''Located in Denver, 3 BR, $400000 - School rating: 8''\<rparr>]
       \<le> length [row_P1, row_P2]
   \<and> int (length
        [\<lparr>property_id = ''P2'', address = ''2 Oak Ave'', price = 500000, score = 225 / 4 :: rat,
            reason = ''Located in Denver, 4 BR, $500000 - School rating: 9''\<rparr>,
         \<lparr>property_id = ''P1'', address = ''1 Elm St'', price = 400000, score = 50,
            reason = ''Located in Denver, 3 BR, $400000 - School rating: 8''\<rparr>]) \<le> 3"
  using recommendations_length [OF sort_descending_contract example_response_classifier]
    sort_descending_contract
  by simp


subsection \<open>C8: the scoring stage\<close>

text \<open>
  Claim C8. For a bundle that holds a model, a scaler and a feature list whose columns all
  exist, the scoring stage builds the matrix whose row for a candidate lists that
  candidate's values of the feature columns in the order of the feature list, and passes
  it to the scaler. On the scaled matrix \<open>X\<close>: if the model has \<^verbatim>\<open>predict_proba\<close>, the
  scores are the entries at index 1 of the rows it returns (the second class); otherwise
  they are what \<^verbatim>\<open>predict\<close> returns.
\<close>

theorem scoring_stage:
  assumes "model b = Some m" and "scaler b = Some sc" and "features b = Some fs"
    and "\<forall>r \<in> set df. \<forall>f \<in> set fs. column f r \<noteq> None"
    and "transform sc (map (\<lambda>r. map (\<lambda>f. the (column f r)) fs) df) = Inr X"
  shows "(\<forall>pp P. predict_proba m = Some pp \<longrightarrow> pp X = Inr P \<longrightarrow> (\<forall>p \<in> set P. 1 < length p)
            \<longrightarrow> model_prediction b df = Inr (map (\<lambda>p. p ! 1) P))
         \<and> (predict_proba m = None \<longrightarrow> model_prediction b df = predict m X)"
  using assms by (simp add: model_prediction_def df_getitem_columns_def column_1_def)

theorem scoring_stage_witness:
  "model_prediction (example_bundle example_classifier) [row_P1, row_P2]
     = Inr (map (\<lambda>p. p ! 1) [[1 / 2, 1 / 2], [7 / 16, 9 / 16]])
   \<and> model_prediction (example_bundle example_regressor) [row_P1, row_P2]
     = predict example_regressor [[1800, 8], [2400, 9]]"
proof -
  let ?fs = "[''sqft'', ''school_rating'']"
  let ?df = "[row_P1, row_P2]"
  let ?X = "[[1800, 8], [2400, 9 :: rat]]"
  have cols: "\<forall>r \<in> set ?df. \<forall>f \<in> set ?fs. column f r \<noteq> None"
    by (simp add: column_def row_P1_def row_P2_def)
  have tr: "transform example_scaler (map (\<lambda>r. map (\<lambda>f. the (column f r)) ?fs) ?df) = Inr ?X"
    by (simp add: example_scaler_def column_def row_P1_def row_P2_def cell_value_def)
  have c: "model_prediction (example_bundle example_classifier) ?df
      = Inr (map (\<lambda>p. p ! 1) [[1 / 2, 1 / 2], [7 / 16, 9 / 16]])"
    using scoring_stage [of "example_bundle example_classifier" example_classifier
        example_scaler ?fs ?df ?X, OF _ _ _ cols tr]
    by (simp add: example_bundle_def example_classifier_def)
  have r: "model_prediction (example_bundle example_regressor) ?df
      = predict example_regressor ?X"
    using scoring_stage [of "example_bundle example_regressor" example_regressor
        example_scaler ?fs ?df ?X, OF _ _ _ cols tr]
    by (simp add: example_bundle_def example_regressor_def)
  from c r show ?thesis by simp
qed

subsection \<open>C9: the table and the bundle after a request\<close>

text \<open>
  Claim C9. In a state whose table is an allocated frame, a request leaves the global
  \<^verbatim>\<open>property_data\<close> pointing to the same frame with the same rows, leaves the bundle
  as it was, and leaves every frame that existed before the request unchanged: the copy,
  the masks, the assignment of the score column, the sort and the truncation all work on
  frames allocated during the request.
\<close>

theorem globals_unchanged:
  assumes "property_data s < next_addr s"
  shows "property_data (snd (recommend_properties sv req s)) = property_data s
     \<and> heap (snd (recommend_properties sv req s))
           (property_data (snd (recommend_properties sv req s)))
         = heap s (property_data s)
     \<and> model_bundle (snd (recommend_properties sv req s)) = model_bundle s
     \<and> (\<forall>a < next_addr s. heap (snd (recommend_properties sv req s)) a = heap s a)"
  using recommend_properties_extends [of s sv req] assms by (simp add: extends_def)

theorem globals_unchanged_witness:
  "property_data (example_state (example_bundle example_classifier))
     < next_addr (example_state (example_bundle example_classifier))
   \<and> heap (snd (recommend_properties sort_descending (example_request denver_preferences 3)
                 (example_state (example_bundle example_classifier)))) 0
       = [row_P1, row_P2, row_P3]
   \<and> model_bundle (snd (recommend_properties sort_descending (example_request denver_preferences 3)
                 (example_state (example_bundle example_classifier))))
       = example_bundle example_classifier"
proof -
  let ?s = "example_state (example_bundle example_classifier)"
  have h: "property_data ?s < next_addr ?s" by (simp add: example_state_def)
  have pd: "property_data ?s = 0" by (simp add: example_state_def)
  have "heap ?s 0 = [row_P1, row_P2, row_P3]" "model_bundle ?s = example_bundle example_classifier"
    by (simp_all add: example_state_def)
  with globals_unchanged [OF h, of sort_descending "example_request denver_preferences 3"] h pd
  show ?thesis by simp
qed

subsection \<open>C10: the response depends on the table, the bundle and the request only\<close>

text \<open>
  Claim C10. Two evaluations of the handler on the same request, in states that hold the
  same table and the same bundle, give the same result (the same error, or the same
  recommendations in the same order), whatever else the two heaps hold. In particular a
  request gets the result it would have got had an earlier request not been handled.
\<close>

theorem response_determined:
  "(heap s1 (property_data s1) = heap s2 (property_data s2) \<longrightarrow> model_bundle s1 = model_bundle s2
      \<longrightarrow> fst (recommend_properties sv req s1) = fst (recommend_properties sv req s2))
   \<and> (property_data s < next_addr s
      \<longrightarrow> fst (recommend_properties sv req (snd (recommend_properties sv req' s)))
          = fst (recommend_properties sv req s))"
proof (intro conjI impI)
  assume same_table: "heap s1 (property_data s1) = heap s2 (property_data s2)"
    and same_bundle: "model_bundle s1 = model_bundle s2"
  show "fst (recommend_properties sv req s1) = fst (recommend_properties sv req s2)"
    unfolding recommend_properties_fst same_table same_bundle by (rule refl)
next
  let ?t = "snd (recommend_properties sv req' s)"
  assume "property_data s < next_addr s"
  with recommend_properties_extends [of s sv req']
  have same_table: "heap ?t (property_data ?t) = heap s (property_data s)"
    and same_bundle: "model_bundle ?t = model_bundle s"
    by (simp_all add: extends_def)
  show "fst (recommend_properties sv req ?t) = fst (recommend_properties sv req s)"
    unfolding recommend_properties_fst [of sv req ?t] same_table same_bundle
    unfolding recommend_properties_fst [of sv req s] by (rule refl)
qed

theorem response_determined_witness:
  "heap (example_state (example_bundle example_classifier))
        (property_data (example_state (example_bundle example_classifier)))
     = heap ((example_state (example_bundle example_classifier))\<lparr>next_addr := 7\<rparr>)
         (property_data ((example_state (example_bundle example_classifier))\<lparr>next_addr := 7\<rparr>))
   \<and> fst (recommend_properties sort_descending (example_request denver_preferences 3)
          ((example_state (example_bundle example_classifier))\<lparr>next_addr := 7\<rparr>))
     = Inr \<lparr>recommendations =
        [\<lparr>property_id = ''P2'', address = ''2 Oak Ave'', price = 500000, score = 225 / 4,
            reason = ''Located in Denver, 4 BR, $500000 - School rating: 9''\<rparr>,
         \<lparr>property_id = ''P1'', address = ''1 Elm St'', price = 400000, score = 50,
            reason = ''Located in Denver, 3 BR, $400000 - School rating: 8''\<rparr>]\<rparr>
   \<and> property_data (example_state (example_bundle example_classifier))
       < next_addr (example_state (example_bundle example_classifier))
   \<and> fst (recommend_properties sort_descending (example_request denver_preferences 3)
          (snd (recommend_properties sort_descending (example_request frugal_preferences 1)
                  (example_state (example_bundle example_classifier)))))
     = Inr \<lparr>recommendations =
        [\<lparr>property_id = ''P2'', address = ''2 Oak Ave'', price = 500000, score = 225 / 4,
            reason = ''Located in Denver, 4 BR, $500000 - School rating: 9''\<rparr>,
         \<lparr>property_id = ''P1'', address = ''1 Elm St'', price = 400000, score = 50,
            reason = ''Located in Denver, 3 BR, $400000 - School rating: 8''\<rparr>]\<rparr>"
proof -
  let ?s = "example_state (example_bundle example_classifier)"
  let ?req = "example_request denver_preferences 3"
  have h1: "heap ?s (property_data ?s)
      = heap (?s\<lparr>next_addr := 7\<rparr>) (property_data (?s\<lparr>next_addr := 7\<rparr>))"
    by simp
  have h2: "model_bundle ?s = model_bundle (?s\<lparr>next_addr := 7\<rparr>)" by simp
  have h3: "property_data ?s < next_addr ?s" by (simp add: example_state_def)
  note rd = response_determined [of ?s "?s\<lparr>next_addr := 7\<rparr>" sort_descending ?req ?s
      "example_request frugal_preferences 1"]
  have e1: "fst (recommend_properties sort_descending ?req (?s\<lparr>next_addr := 7\<rparr>))
      = fst (recommend_properties sort_descending ?req ?s)"
    using conjunct1 [OF rd, rule_format, OF h1 h2] by (rule sym)
  have e2: "fst (recommend_properties sort_descending ?req
        (snd (recommend_properties sort_descending (example_request frugal_preferences 1) ?s)))
      = fst (recommend_properties sort_descending ?req ?s)"
    using conjunct2 [OF rd, rule_format, OF h3] .
  show ?thesis
    unfolding e1 e2 example_response_classifier
    by (intro conjI h1 h3 refl)
qed

end
